theory Spec2Isabelle
  imports Main
begin

section \<open>JavaScript strings\<close>

text \<open>
  The TypeScript sources work on JavaScript strings, sequences of UTF-16 code units.
  They are modelled by \<^typ>\<open>string\<close>; a \<^typ>\<open>char\<close> stands for the code unit of the
  same number, so the model covers the texts whose code units lie in U+0000..U+00FF.
  \<open>undefined\<close> and \<open>null\<close> are \<^term>\<open>None\<close>.
\<close>

definition isWhiteSpace :: "char \<Rightarrow> bool" where
  \<comment> \<open>ECMAScript WhiteSpace and LineTerminator (what \<open>trim\<close> removes and \<open>\s\<close> matches):
      TAB, LF, VT, FF, CR, SP and NBSP are the ones below U+0100.\<close>
  "isWhiteSpace c =
     (c = CHR 0x09 \<or> c = CHR 0x0A \<or> c = CHR 0x0B \<or> c = CHR 0x0C \<or> c = CHR 0x0D \<or>
      c = CHR 0x20 \<or> c = CHR 0xA0)"

definition trim :: "string \<Rightarrow> string" where
  "trim s = rev (dropWhile isWhiteSpace (rev (dropWhile isWhiteSpace s)))"

definition startsWith :: "string \<Rightarrow> string \<Rightarrow> bool" where
  "startsWith s p = (take (length p) s = p)"

definition endsWith :: "string \<Rightarrow> string \<Rightarrow> bool" where
  "endsWith s p = (length p \<le> length s \<and> drop (length s - length p) s = p)"

definition substring :: "string \<Rightarrow> nat \<Rightarrow> nat \<Rightarrow> string" where
  \<comment> \<open>\<open>s.substring(a, b)\<close>: both indices are clamped to the length and swapped when \<open>a > b\<close>.\<close>
  "substring s a b =
     (let a' = min a (length s); b' = min b (length s)
      in take (max a' b' - min a' b') (drop (min a' b') s))"

definition substringFrom :: "string \<Rightarrow> nat \<Rightarrow> string" where
  \<comment> \<open>\<open>s.substring(a)\<close>\<close>
  "substringFrom s a = substring s a (length s)"

definition toLowerCaseChar :: "char \<Rightarrow> char" where
  \<comment> \<open>A-Z and the Latin-1 capitals U+00C0..U+00DE (but not the multiplication sign U+00D7)
      move 32 up; every other code unit below U+0100 is its own lower case.\<close>
  "toLowerCaseChar c =
     (let n = (of_char c :: nat)
      in if (65 \<le> n \<and> n \<le> 90) \<or> (192 \<le> n \<and> n \<le> 222 \<and> n \<noteq> 215)
         then char_of (n + 32) else c)"

definition toLowerCase :: "string \<Rightarrow> string" where
  "toLowerCase s = map toLowerCaseChar s"

fun includesStr :: "string \<Rightarrow> string \<Rightarrow> bool" where
  \<comment> \<open>\<open>s.includes(sub)\<close>\<close>
  "includesStr [] sub = (sub = [])"
| "includesStr (c # cs) sub = (startsWith (c # cs) sub \<or> includesStr cs sub)"

fun splitSep :: "string \<Rightarrow> string \<Rightarrow> string list" where
  \<comment> \<open>\<open>s.split(sep)\<close> for a separator that is not empty: the pieces between the
      occurrences of \<open>sep\<close>, found from the left and not overlapping.\<close>
  "splitSep sep [] = [[]]"
| "splitSep sep (c # cs) =
     (if sep \<noteq> [] \<and> startsWith (c # cs) sep
      then [] # splitSep sep (drop (length sep) (c # cs))
      else (case splitSep sep cs of
              [] \<Rightarrow> [[c]]
            | p # ps \<Rightarrow> (c # p) # ps))"

definition splitStr :: "string \<Rightarrow> string \<Rightarrow> string list" where
  \<comment> \<open>\<open>s.split(sep)\<close>; the empty separator splits between all code units.\<close>
  "splitStr s sep = (if sep = [] then map (\<lambda>c. [c]) s else splitSep sep s)"

fun joinStr :: "string list \<Rightarrow> string \<Rightarrow> string" where
  \<comment> \<open>\<open>xs.join(sep)\<close>\<close>
  "joinStr [] sep = []"
| "joinStr [x] sep = x"
| "joinStr (x # y # ys) sep = x @ sep @ joinStr (y # ys) sep"

definition falsy :: "string option \<Rightarrow> bool" where
  \<comment> \<open>\<open>!v\<close> for a \<open>v\<close> of type \<open>string | null | undefined\<close>\<close>
  "falsy v = (case v of None \<Rightarrow> True | Some s \<Rightarrow> s = [])"


section \<open>The external collaborators of the service module\<close>

text \<open>
  Every failure of \<open>services/geminiService.ts\<close> is a JavaScript \<open>Error\<close> carrying a
  message; the built-in operations raise \<open>SyntaxError\<close> (\<open>JSON.parse\<close>) and
  \<open>TypeError\<close> (a method call on \<open>undefined\<close>).
\<close>

datatype js_error = Error string | SyntaxError | TypeError

text \<open>
  The prompt texts are imported from \<open>../constants\<close>; a request names the one it carries.
\<close>

datatype jsnum = NaN | Num int | PosInfinity | NegInfinity

datatype prompt =
    SYSTEM_PROMPT
  | SCRIPT_SYSTEM_PROMPT
  | TRENDING_TOPICS_PROMPT
  | SEO_SYSTEM_PROMPT
  | FinalizeScriptJsonPrompt string "jsnum option"

record request =
  model :: string
  contents :: string
  systemInstruction :: prompt
  responseMimeType :: "string option"

record response =
  response_text :: "string option"

text \<open>
  The generative endpoint: \<open>ai.models.generateContent\<close> either rejects or answers.
  \<open>process.env.API_KEY\<close> is a \<open>string | undefined\<close>.
\<close>

type_synonym network = "request \<Rightarrow> js_error + response"

type_synonym Genre = string
type_synonym Duration = string

record Idea =
  title :: string
  concept :: string
  storyArc :: string
  genre :: Genre
  duration :: Duration
  visualsAndAudio :: string

section \<open>\<open>JSON.parse\<close>\<close>

text \<open>
  The built-in parser, after the JSON grammar of ECMA-404. A string value is the list of
  its code units (an escape \<open>\uXXXX\<close> may name any of them); a number keeps its literal.
  The members of an object are kept in source order.
\<close>

datatype json =
    JNull
  | JBool bool
  | JNumber string
  | JString "nat list"
  | JArray "json list"
  | JObject "(nat list \<times> json) list"

definition isJsonWs :: "char \<Rightarrow> bool" where
  "isJsonWs c = (c = CHR 0x20 \<or> c = CHR 0x09 \<or> c = CHR 0x0A \<or> c = CHR 0x0D)"

definition isDigit :: "char \<Rightarrow> bool" where
  "isDigit c = (c \<in> set ''0123456789'')"

fun indexOfChar :: "string \<Rightarrow> char \<Rightarrow> nat option" where
  "indexOfChar [] c = None"
| "indexOfChar (x # xs) c = (if x = c then Some 0 else map_option Suc (indexOfChar xs c))"

definition hexVal :: "char \<Rightarrow> nat option" where
  "hexVal c =
     (case indexOfChar ''0123456789abcdef'' c of
        Some n \<Rightarrow> Some n
      | None \<Rightarrow> map_option (\<lambda>n. n + 10) (indexOfChar ''ABCDEF'' c))"

definition escapeUnit :: "char \<Rightarrow> nat option" where
  \<comment> \<open>the code unit a two-character escape stands for\<close>
  "escapeUnit e =
     (if e = CHR 0x22 then Some 34 else if e = CHR 0x5C then Some 92
      else if e = CHR ''/'' then Some 47 else if e = CHR ''b'' then Some 8
      else if e = CHR ''f'' then Some 12 else if e = CHR ''n'' then Some 10
      else if e = CHR ''r'' then Some 13 else if e = CHR ''t'' then Some 9
      else None)"

definition consUnit :: "nat \<Rightarrow> (nat list \<times> string) option \<Rightarrow> (nat list \<times> string) option" where
  "consUnit u r = map_option (\<lambda>(us, rest). (u # us, rest)) r"

fun parseStringBody :: "string \<Rightarrow> (nat list \<times> string) option" where
  \<comment> \<open>the characters of a string after its opening quote, up to the closing one\<close>
  "parseStringBody [] = None"
| "parseStringBody (c # cs) =
     (if c = CHR 0x22 then Some ([], cs)
      else if c = CHR 0x5C then
        (case cs of
           [] \<Rightarrow> None
         | e # r \<Rightarrow>
             if e = CHR ''u'' then
               (case r of
                  h1 # h2 # h3 # h4 # r' \<Rightarrow>
                    (case (hexVal h1, hexVal h2, hexVal h3, hexVal h4) of
                       (Some a, Some b, Some c, Some d) \<Rightarrow>
                         consUnit (((a * 16 + b) * 16 + c) * 16 + d) (parseStringBody r')
                     | _ \<Rightarrow> None)
                | _ \<Rightarrow> None)
             else
               (case escapeUnit e of
                  None \<Rightarrow> None
                | Some u \<Rightarrow> consUnit u (parseStringBody r)))
      else if (of_char c :: nat) < 32 then None
      else consUnit (of_char c) (parseStringBody cs))"

definition parseDigits :: "string \<Rightarrow> (string \<times> string) option" where
  \<comment> \<open>one digit or more\<close>
  "parseDigits s =
     (let ds = takeWhile isDigit s in if ds = [] then None else Some (ds, dropWhile isDigit s))"

definition parseInt10 :: "string \<Rightarrow> (string \<times> string) option" where
  \<comment> \<open>the integer part: a single 0, or digits that do not start with 0\<close>
  "parseInt10 s =
     (case s of
        [] \<Rightarrow> None
      | d # r \<Rightarrow> if d = CHR ''0'' then Some ([d], r)
                 else if isDigit d then Some (d # takeWhile isDigit r, dropWhile isDigit r)
                 else None)"

definition parseFrac :: "string \<Rightarrow> (string \<times> string) option" where
  "parseFrac s =
     (case s of
        [] \<Rightarrow> Some ([], s)
      | d # r \<Rightarrow> if d = CHR ''.'' then map_option (\<lambda>(ds, rest). (d # ds, rest)) (parseDigits r)
                 else Some ([], s))"

definition parseExp :: "string \<Rightarrow> (string \<times> string) option" where
  "parseExp s =
     (case s of
        [] \<Rightarrow> Some ([], s)
      | e # r \<Rightarrow>
          if e = CHR ''e'' \<or> e = CHR ''E'' then
            (case r of
               [] \<Rightarrow> None
             | g # r' \<Rightarrow>
                 if g = CHR ''+'' \<or> g = CHR ''-''
                 then map_option (\<lambda>(ds, rest). (e # g # ds, rest)) (parseDigits r')
                 else map_option (\<lambda>(ds, rest). (e # ds, rest)) (parseDigits r))
          else Some ([], s))"

definition parseNumber :: "string \<Rightarrow> (string \<times> string) option" where
  "parseNumber s =
     (let (sign, s1) = (case s of [] \<Rightarrow> ([], s) | c # r \<Rightarrow> if c = CHR ''-'' then ([c], r) else ([], s))
      in case parseInt10 s1 of
           None \<Rightarrow> None
         | Some (ip, s2) \<Rightarrow>
             (case parseFrac s2 of
                None \<Rightarrow> None
              | Some (fp, s3) \<Rightarrow>
                  (case parseExp s3 of
                     None \<Rightarrow> None
                   | Some (ep, s4) \<Rightarrow> Some (sign @ ip @ fp @ ep, s4))))"

text \<open>
  Values nest, so the parser of values is recursive in a way that is not structural;
  it counts its calls down from a bound no parse of the text can reach (each call
  consumes a character before it makes another one).
\<close>

fun parseValue :: "nat \<Rightarrow> string \<Rightarrow> (json \<times> string) option"
  and parseElements :: "nat \<Rightarrow> string \<Rightarrow> (json list \<times> string) option"
  and parseMembers :: "nat \<Rightarrow> string \<Rightarrow> ((nat list \<times> json) list \<times> string) option"
where
  "parseValue 0 s = None"
| "parseValue (Suc n) s =
     (case dropWhile isJsonWs s of
        [] \<Rightarrow> None
      | c # cs \<Rightarrow>
          if c = CHR ''n'' then (if startsWith cs ''ull'' then Some (JNull, drop 3 cs) else None)
          else if c = CHR ''t'' then (if startsWith cs ''rue'' then Some (JBool True, drop 3 cs) else None)
          else if c = CHR ''f'' then (if startsWith cs ''alse'' then Some (JBool False, drop 4 cs) else None)
          else if c = CHR 0x22 then map_option (\<lambda>(us, r). (JString us, r)) (parseStringBody cs)
          else if c = CHR ''['' then
            (case dropWhile isJsonWs cs of
               [] \<Rightarrow> None
             | d # r \<Rightarrow> if d = CHR '']'' then Some (JArray [], r)
                        else map_option (\<lambda>(vs, r'). (JArray vs, r')) (parseElements n cs))
          else if c = CHR ''{'' then
            (case dropWhile isJsonWs cs of
               [] \<Rightarrow> None
             | d # r \<Rightarrow> if d = CHR ''}'' then Some (JObject [], r)
                        else map_option (\<lambda>(ms, r'). (JObject ms, r')) (parseMembers n cs))
          else map_option (\<lambda>(lit, r). (JNumber lit, r)) (parseNumber (c # cs)))"
| "parseElements 0 s = None"
| "parseElements (Suc n) s =
     (case parseValue n s of
        None \<Rightarrow> None
      | Some (v, r) \<Rightarrow>
          (case dropWhile isJsonWs r of
             [] \<Rightarrow> None
           | c # r' \<Rightarrow>
               if c = CHR '','' then map_option (\<lambda>(vs, r''). (v # vs, r'')) (parseElements n r')
               else if c = CHR '']'' then Some ([v], r')
               else None))"
| "parseMembers 0 s = None"
| "parseMembers (Suc n) s =
     (case dropWhile isJsonWs s of
        [] \<Rightarrow> None
      | q # s1 \<Rightarrow>
          if q \<noteq> CHR 0x22 then None
          else
            (case parseStringBody s1 of
               None \<Rightarrow> None
             | Some (k, s2) \<Rightarrow>
                 (case dropWhile isJsonWs s2 of
                    [] \<Rightarrow> None
                  | colon # s3 \<Rightarrow>
                      if colon \<noteq> CHR '':'' then None
                      else
                        (case parseValue n s3 of
                           None \<Rightarrow> None
                         | Some (v, s4) \<Rightarrow>
                             (case dropWhile isJsonWs s4 of
                                [] \<Rightarrow> None
                              | c # s5 \<Rightarrow>
                                  if c = CHR '','' then
                                    map_option (\<lambda>(ms, r). ((k, v) # ms, r)) (parseMembers n s5)
                                  else if c = CHR ''}'' then Some ([(k, v)], s5)
                                  else None)))))"

definition JSON_parse :: "string \<Rightarrow> js_error + json" where
  \<comment> \<open>\<open>JSON.parse(s)\<close>: one value, white space around it and nothing else\<close>
  "JSON_parse s =
     (case parseValue (2 * length s + 2) s of
        None \<Rightarrow> Inl SyntaxError
      | Some (v, r) \<Rightarrow> if dropWhile isJsonWs r = [] then Inr v else Inl SyntaxError)"


section \<open>\<open>services/geminiService.ts\<close>\<close>

text \<open>
  An operation returns its result, or the error it throws, together with the requests
  it has sent to the endpoint, in order.
\<close>

definition getGenAIClient :: "string option \<Rightarrow> js_error + string" where
  \<comment> \<open>the client is known by the key it was built with\<close>
  "getGenAIClient apiKey =
     (case apiKey of
        None \<Rightarrow> Inl (Error ''API_KEY environment variable is not set.'')
      | Some k \<Rightarrow> if k = [] then Inl (Error ''API_KEY environment variable is not set.'')
                  else Inr k)"

definition catchAs :: "string \<Rightarrow> js_error + 'a \<Rightarrow> js_error + 'a" where
  \<comment> \<open>\<open>try { ... } catch (error) { console.error(...); throw new Error(msg); }\<close>\<close>
  "catchAs msg r = (case r of Inl e \<Rightarrow> Inl (Error msg) | Inr v \<Rightarrow> Inr v)"

definition trimText :: "string option \<Rightarrow> js_error + string" where
  \<comment> \<open>\<open>response.text.trim()\<close>; the call on \<open>undefined\<close> is a TypeError\<close>
  "trimText t = (case t of None \<Rightarrow> Inl TypeError | Some s \<Rightarrow> Inr (trim s))"

definition ideasRequest :: "Genre \<Rightarrow> Duration \<Rightarrow> request" where
  "ideasRequest genre' duration' =
     \<lparr>model = ''gemini-2.5-pro'',
      contents = ''Generate 10 '' @ genre' @ '' ideas for a '' @ duration' @ '' video.'',
      systemInstruction = SYSTEM_PROMPT,
      responseMimeType = None\<rparr>"

definition generateShortsIdeas ::
  "string option \<Rightarrow> network \<Rightarrow> Genre \<Rightarrow> Duration \<Rightarrow> (js_error + string option) \<times> request list" where
  "generateShortsIdeas apiKey net genre' duration' =
     (case getGenAIClient apiKey of
        Inl e \<Rightarrow> (Inl e, [])
      | Inr ai \<Rightarrow>
          (let req = ideasRequest genre' duration'
           in (catchAs ''Failed to generate ideas from Gemini API.''
                 (case net req of
                    Inl e \<Rightarrow> Inl e
                  | Inr response \<Rightarrow> Inr (response_text response)),
               [req])))"

definition stripFences :: "string \<Rightarrow> string" where
  \<comment> \<open>lines 119 to 127 of \<open>finalizeScriptAsJson\<close>, from the text of the response\<close>
  "stripFences text =
     (let jsonText = trim text;
          jsonText = (if startsWith jsonText ''```json'' then substringFrom jsonText 7 else jsonText);
          jsonText = (if endsWith jsonText ''```''
                      then substring jsonText 0 (length jsonText - 3) else jsonText)
      in trim jsonText)"

definition finalizeRequest :: "string \<Rightarrow> string \<Rightarrow> jsnum option \<Rightarrow> request" where
  "finalizeRequest finalScript sceneDuration numberOfScenes =
     \<lparr>model = ''gemini-2.5-pro'',
      contents =
        ''Please convert the following script into the specified JSON format.\<newline>'' @
        ''    \<newline>'' @
        ''    **Script:**\<newline>'' @
        ''    '' @ finalScript @ ''\<newline>'' @
        ''    '',
      systemInstruction = FinalizeScriptJsonPrompt sceneDuration numberOfScenes,
      responseMimeType = None\<rparr>"

definition finalizeScriptAsJson ::
  "string option \<Rightarrow> network \<Rightarrow> string \<Rightarrow> string \<Rightarrow> jsnum option \<Rightarrow> (js_error + string) \<times> request list" where
  "finalizeScriptAsJson apiKey net finalScript sceneDuration numberOfScenes =
     (case getGenAIClient apiKey of
        Inl e \<Rightarrow> (Inl e, [])
      | Inr ai \<Rightarrow>
          (let req = finalizeRequest finalScript sceneDuration numberOfScenes
           in (catchAs ''Failed to finalize script as JSON from Gemini API.''
                 (case net req of
                    Inl e \<Rightarrow> Inl e
                  | Inr response \<Rightarrow>
                      (case response_text response of
                         None \<Rightarrow> Inl TypeError
                       | Some t \<Rightarrow> Inr (stripFences t))),
               [req])))"

definition trendingRequest :: "Genre list \<Rightarrow> request" where
  "trendingRequest genres =
     \<lparr>model = ''gemini-2.5-pro'',
      contents = ''Analyze trends for: '' @ joinStr genres '', '',
      systemInstruction = TRENDING_TOPICS_PROMPT,
      responseMimeType = None\<rparr>"

definition getTrendingTopics ::
  "string option \<Rightarrow> network \<Rightarrow> Genre list \<Rightarrow> (js_error + string list) \<times> request list" where
  "getTrendingTopics apiKey net genres =
     (case getGenAIClient apiKey of
        Inl e \<Rightarrow> (Inl e, [])
      | Inr ai \<Rightarrow>
          (let req = trendingRequest genres
           in (catchAs ''Failed to get trending topics from Gemini API.''
                 (case net req of
                    Inl e \<Rightarrow> Inl e
                  | Inr response \<Rightarrow>
                      (case trimText (response_text response) of
                         Inl e \<Rightarrow> Inl e
                       | Inr topicsText \<Rightarrow>
                           if topicsText = [] then Inr []
                           else Inr (map (\<lambda>topic. toLowerCase (trim topic))
                                       (splitStr topicsText '','')))),
               [req])))"

definition seoRequest :: "string \<Rightarrow> Idea \<Rightarrow> request" where
  \<comment> \<open>the response schema (an object with the required strings \<open>title\<close> and
      \<open>description\<close> and the string array \<open>tags\<close>) is a fixed part of the request\<close>
  "seoRequest finalJsonScript idea =
     \<lparr>model = ''gemini-2.5-pro'',
      contents =
        ''Generate the SEO package for the following video idea and script.\<newline>'' @
        ''\<newline>'' @
        ''**Idea Title:** '' @ title idea @ ''\<newline>'' @
        ''**Concept:** '' @ concept idea @ ''\<newline>'' @
        ''**Genre:** '' @ genre idea @ ''\<newline>'' @
        ''\<newline>'' @
        ''**Final Production Script (JSON):**\<newline>'' @
        finalJsonScript @ ''\<newline>'',
      systemInstruction = SEO_SYSTEM_PROMPT,
      responseMimeType = Some ''application/json''\<rparr>"

definition generateSeoContent ::
  "string option \<Rightarrow> network \<Rightarrow> string \<Rightarrow> Idea \<Rightarrow> (js_error + json) \<times> request list" where
  \<comment> \<open>\<open>JSON.parse(jsonText) as SeoContent\<close>: the cast checks nothing, the result is the
      parsed value\<close>
  "generateSeoContent apiKey net finalJsonScript idea =
     (case getGenAIClient apiKey of
        Inl e \<Rightarrow> (Inl e, [])
      | Inr ai \<Rightarrow>
          (let req = seoRequest finalJsonScript idea
           in (catchAs ''Failed to generate SEO content from Gemini API.''
                 (case net req of
                    Inl e \<Rightarrow> Inl e
                  | Inr response \<Rightarrow>
                      (case trimText (response_text response) of
                         Inl e \<Rightarrow> Inl e
                       | Inr jsonText \<Rightarrow> JSON_parse jsonText)),
               [req])))"

section \<open>Regular expressions\<close>

text \<open>
  The patterns of \<open>components/ScriptGeneratorModal.tsx\<close> use character classes, literal
  characters, greedy and lazy repetition of a class, capture groups, one optional group
  and the anchors. The matcher is the backtracking one of ECMAScript: a greedy
  repetition tries the longest run first, a lazy one the shortest, an optional group is
  tried before it is skipped. Without the flag \<open>m\<close> the anchors are the ends of the
  input.
\<close>

datatype cls = Digit | Space | AnyChar

fun clsMatches :: "cls \<Rightarrow> char \<Rightarrow> bool" where
  "clsMatches Digit c = isDigit c"
| "clsMatches Space c = isWhiteSpace c"
| "clsMatches AnyChar c = (c \<noteq> CHR 0x0A \<and> c \<noteq> CHR 0x0D)"

datatype rx =
    Bol
  | Eol
  | Lit char
  | Plus cls
  | Star cls
  | StarLazy cls
  | Open nat
  | Close nat
  | Opt "rx list"

record captures =
  starts :: "(nat \<times> nat) list"
  groups :: "(nat \<times> nat \<times> nat) list"

fun weight :: "rx \<Rightarrow> nat" where
  "weight (Opt b) = Suc (sum_list (map weight b))"
| "weight (Plus k) = 2"
| "weight r = 1"

function matchRx :: "rx list \<Rightarrow> string \<Rightarrow> nat \<Rightarrow> captures \<Rightarrow> captures option" where
  "matchRx [] s i c = Some c"
| "matchRx (Bol # r) s i c = (if i = 0 then matchRx r s i c else None)"
| "matchRx (Eol # r) s i c = (if s = [] then matchRx r s i c else None)"
| "matchRx (Lit x # r) s i c =
     (case s of
        [] \<Rightarrow> None
      | y # ys \<Rightarrow> if x = y then matchRx r ys (Suc i) c else None)"
| "matchRx (Plus k # r) s i c =
     (case s of
        [] \<Rightarrow> None
      | y # ys \<Rightarrow> if clsMatches k y then matchRx (Star k # r) ys (Suc i) c else None)"
| "matchRx (Star k # r) s i c =
     (case s of
        [] \<Rightarrow> matchRx r s i c
      | y # ys \<Rightarrow>
          if clsMatches k y then
            (case matchRx (Star k # r) ys (Suc i) c of
               Some c' \<Rightarrow> Some c'
             | None \<Rightarrow> matchRx r s i c)
          else matchRx r s i c)"
| "matchRx (StarLazy k # r) s i c =
     (case matchRx r s i c of
        Some c' \<Rightarrow> Some c'
      | None \<Rightarrow>
          (case s of
             [] \<Rightarrow> None
           | y # ys \<Rightarrow> if clsMatches k y then matchRx (StarLazy k # r) ys (Suc i) c else None))"
| "matchRx (Open n # r) s i c = matchRx r s i (c\<lparr>starts := (n, i) # starts c\<rparr>)"
| "matchRx (Close n # r) s i c =
     (case map_of (starts c) n of
        None \<Rightarrow> matchRx r s i c
      | Some b \<Rightarrow> matchRx r s i (c\<lparr>groups := (n, b, i) # groups c\<rparr>))"
| "matchRx (Opt b # r) s i c =
     (case matchRx (b @ r) s i c of
        Some c' \<Rightarrow> Some c'
      | None \<Rightarrow> matchRx r s i c)"
  by pat_completeness auto
termination
  by (relation "measures [\<lambda>(r, s, i, c). sum_list (map weight r), \<lambda>(r, s, i, c). length s]") auto

fun execFrom :: "rx list \<Rightarrow> string \<Rightarrow> nat \<Rightarrow> captures option" where
  \<comment> \<open>the first position, from \<open>i\<close> on, at which the pattern matches\<close>
  "execFrom pat [] i = matchRx pat [] i \<lparr>starts = [], groups = []\<rparr>"
| "execFrom pat (c # cs) i =
     (case matchRx pat (c # cs) i \<lparr>starts = [], groups = []\<rparr> of
        Some g \<Rightarrow> Some g
      | None \<Rightarrow> execFrom pat cs (Suc i))"

definition matchStr :: "string \<Rightarrow> rx list \<Rightarrow> (nat \<Rightarrow> string option) option" where
  \<comment> \<open>\<open>s.match(re)\<close> for a pattern without the flag \<open>g\<close>: \<open>null\<close>, or the captures by
      number, \<open>undefined\<close> for a group that took no part\<close>
  "matchStr s pat =
     (case execFrom pat s 0 of
        None \<Rightarrow> None
      | Some c \<Rightarrow> Some (\<lambda>n. map_option (\<lambda>(b, e). substring s b e) (map_of (groups c) n)))"


section \<open>Arrays\<close>

fun indexOf :: "'a list \<Rightarrow> 'a \<Rightarrow> int" where
  \<comment> \<open>\<open>xs.indexOf(x)\<close>: the first index of \<open>x\<close>, or -1\<close>
  "indexOf [] x = - 1"
| "indexOf (y # ys) x =
     (if y = x then 0 else (let i = indexOf ys x in if i < 0 then - 1 else i + 1))"

definition relIndex :: "nat \<Rightarrow> int \<Rightarrow> nat" where
  \<comment> \<open>an index argument of \<open>slice\<close>: a negative one counts from the end, all are clamped\<close>
  "relIndex len k = (if k < 0 then nat (max (int len + k) 0) else min (nat k) len)"

definition slice :: "'a list \<Rightarrow> int \<Rightarrow> int \<Rightarrow> 'a list" where
  \<comment> \<open>\<open>xs.slice(a, b)\<close>\<close>
  "slice xs a b =
     (let from = relIndex (length xs) a; to = relIndex (length xs) b
      in take (to - from) (drop from xs))"

definition sliceFrom :: "'a list \<Rightarrow> int \<Rightarrow> 'a list" where
  \<comment> \<open>\<open>xs.slice(a)\<close>\<close>
  "sliceFrom xs a = drop (relIndex (length xs) a) xs"

section \<open>\<open>components/ScriptGeneratorModal.tsx\<close>: the draft and its parts\<close>

definition draftParts :: "string option \<Rightarrow> string option \<times> string option" where
  \<comment> \<open>the first \<open>useMemo\<close>: the pair \<open>(narrationSuggestions, scriptTable)\<close> of a draft.
      The pattern \<open>/\n---\n/\<close> of the split is a literal text, so the split is the one
      on that text.\<close>
  "draftParts script' =
     (case script' of
        None \<Rightarrow> (None, None)
      | Some s \<Rightarrow>
          if s = [] then (None, None)
          else
            (let parts = splitStr s ''\<newline>---\<newline>''
             in if length parts > 1 \<and>
                   includesStr (toLowerCase (parts ! 0)) ''suggested narration styles''
                then (Some (parts ! 0), Some (trim (joinStr (drop 1 parts) ''\<newline>---\<newline>'')))
                else (None, Some s)))"

definition narrationSuggestions :: "string option \<Rightarrow> string option" where
  "narrationSuggestions script' = fst (draftParts script')"

definition scriptTable :: "string option \<Rightarrow> string option" where
  "scriptTable script' = snd (draftParts script')"

definition suggestionLineRx :: "rx list" where
  \<comment> \<open>\<open>/^\d+\.\s*\*\*/\<close>\<close>
  "suggestionLineRx = [Bol, Plus Digit, Lit CHR ''.'', Star Space, Lit CHR ''*'', Lit CHR ''*'']"

definition suggestionRx :: "rx list" where
  \<comment> \<open>\<open>/^\d+\.\s*\*\*(.*?):\*\*(.*?)(?:\s*\*(.*)\*)?$/\<close>\<close>
  "suggestionRx =
     [Bol, Plus Digit, Lit CHR ''.'', Star Space, Lit CHR ''*'', Lit CHR ''*'',
      Open 1, StarLazy AnyChar, Close 1, Lit CHR '':'', Lit CHR ''*'', Lit CHR ''*'',
      Open 2, StarLazy AnyChar, Close 2,
      Opt [Star Space, Lit CHR ''*'', Open 3, Star AnyChar, Close 3, Lit CHR ''*''],
      Eol]"

record narrationSuggestion =
  name :: string
  description :: string
  justification :: string

definition trimOr :: "string option \<Rightarrow> string \<Rightarrow> string" where
  \<comment> \<open>\<open>v?.trim() || d\<close>\<close>
  "trimOr v d = (case v of None \<Rightarrow> d | Some s \<Rightarrow> if trim s = [] then d else trim s)"

definition parseSuggestionLine :: "string \<Rightarrow> narrationSuggestion option" where
  "parseSuggestionLine line =
     (case matchStr line suggestionRx of
        None \<Rightarrow> None
      | Some match \<Rightarrow>
          Some \<lparr>name = trimOr (match 1) ''Unnamed Style'',
                description = trimOr (match 2) [],
                justification = trimOr (match 3) []\<rparr>)"

definition parsedSuggestions :: "string option \<Rightarrow> narrationSuggestion list" where
  \<comment> \<open>the second \<open>useMemo\<close>, from \<open>narrationSuggestions\<close>\<close>
  "parsedSuggestions ns =
     (case ns of
        None \<Rightarrow> []
      | Some s \<Rightarrow>
          if s = [] then []
          else
            (let suggestionLines =
                   filter (\<lambda>line. matchStr line suggestionLineRx \<noteq> None)
                     (splitStr (trim s) ''\<newline>'')
             in List.map_filter parseSuggestionLine suggestionLines))"

section \<open>\<open>components/ScriptGeneratorModal.tsx\<close>: the table of the draft\<close>

text \<open>
  What a renderer returns: the \<open>pre\<close> element with its text, or the table with the
  cells of its head and, row by row, the paragraphs of every cell.
\<close>

datatype element =
    Pre string
  | Table "string list" "string list list list"

definition isHeaderLine :: "string \<Rightarrow> bool" where
  "isHeaderLine line = (includesStr line ''|'' \<and> includesStr (toLowerCase line) ''timestamp'')"

definition tableRow :: "string \<Rightarrow> string list" where
  \<comment> \<open>the cells of a line; \<open>cells[0]\<close> of an empty array would be \<open>undefined\<close>\<close>
  "tableRow line =
     (let cells = map trim (splitStr line ''|'')
      in if cells \<noteq> [] \<and> hd cells = [] \<and> last cells = [] then slice cells 1 (- 1) else cells)"

definition renderScriptTable_try :: "string \<Rightarrow> js_error + element" where
  \<comment> \<open>the body of the \<open>try\<close> block; \<open>!headerLine\<close> holds for \<open>undefined\<close> and for the
      empty line\<close>
  "renderScriptTable_try markdown =
     (let lines = splitStr (trim markdown) ''\<newline>''
      in case find isHeaderLine lines of
           None \<Rightarrow> Inr (Pre markdown)
         | Some headerLine \<Rightarrow>
             if headerLine = [] then Inr (Pre markdown)
             else
               (let headerIndex = indexOf lines headerLine;
                    header = filter (\<lambda>h. h \<noteq> []) (map trim (splitStr headerLine ''|''));
                    dataRows = sliceFrom lines (headerIndex + 2);
                    rows = filter (\<lambda>row. length row > 1) (map tableRow dataRows)
                in Inr (Table header (map (map (\<lambda>cell. splitStr cell ''\<newline>'')) rows))))"

definition renderScriptTable :: "string \<Rightarrow> element" where
  \<comment> \<open>\<open>try { ... } catch (e) { ...; return <pre>{markdown}</pre>; }\<close>\<close>
  "renderScriptTable markdown =
     (case renderScriptTable_try markdown of
        Inl e \<Rightarrow> Pre markdown
      | Inr el \<Rightarrow> el)"

section \<open>\<open>components/ScriptGeneratorModal.tsx\<close>: the controls\<close>

fun digitsValue :: "nat \<Rightarrow> string \<Rightarrow> nat" where
  "digitsValue acc [] = acc"
| "digitsValue acc (d # ds) = digitsValue (acc * 10 + (of_char d - 48)) ds"

fun bitLength :: "nat \<Rightarrow> nat" where
  "bitLength n = (if n = 0 then 0 else Suc (bitLength (n div 2)))"

declare bitLength.simps [simp del]

definition toNumber :: "nat \<Rightarrow> nat option" where
  \<comment> \<open>the Number value for a natural number: the nearest double, which keeps 53
      significant bits and rounds a tie to the even one; \<open>None\<close> is \<open>Infinity\<close>, for
      what has more than 1024 bits after the rounding (\<open>2^1024\<close> or more)\<close>
  "toNumber n =
     (let e = bitLength n - 53;
          q = n div 2 ^ e;
          r = n mod 2 ^ e;
          q' = (if 2 ^ e < 2 * r \<or> (2 * r = 2 ^ e \<and> odd q) then q + 1 else q);
          m = q' * 2 ^ e
      in if 1024 < bitLength m then None else Some m)"

definition parseInt :: "string \<Rightarrow> jsnum" where
  \<comment> \<open>\<open>parseInt(s, 10)\<close>: leading white space, a sign, the longest run of digits;
      \<open>NaN\<close> without a digit, else the Number value for the run, with the sign (the two
      zeros are one \<open>Num 0\<close>). The digits are all read: an engine may, past the
      twentieth, read zeros.\<close>
  "parseInt s =
     (let s1 = dropWhile isWhiteSpace s;
          neg = (s1 \<noteq> [] \<and> hd s1 = CHR ''-'');
          s2 = (if s1 \<noteq> [] \<and> (hd s1 = CHR ''-'' \<or> hd s1 = CHR ''+'') then tl s1 else s1);
          ds = takeWhile isDigit s2
      in if ds = [] then NaN
         else (case toNumber (digitsValue 0 ds) of
                 None \<Rightarrow> if neg then NegInfinity else PosInfinity
               | Some m \<Rightarrow> Num ((if neg then - 1 else 1) * int m)))"

record props =
  script :: "string option"
  finalJsonScript :: "string option"
  isLoading :: bool

record modalState =
  selectedDuration :: Duration
  suggestion :: string
  noNarration :: bool
  jsonSceneDuration :: string
  selectedNarrationStyle :: "string option"
  numberOfScenes :: string
  language :: string

definition initialState :: "Duration \<Rightarrow> modalState" where
  \<comment> \<open>the \<open>useState\<close> defaults; the argument is \<open>idea?.duration || Duration.Shorts30\<close>\<close>
  "initialState d =
     \<lparr>selectedDuration = d, suggestion = [], noNarration = False, jsonSceneDuration = ''15'',
      selectedNarrationStyle = None, numberOfScenes = [], language = ''English''\<rparr>"

datatype event =
    ChangeSuggestion string
  | ChangeNumberOfScenes string
  | ChangeJsonSceneDuration string
  | ClickRegenerate
  | ClickFinalize

datatype call =
    OnGenerate string bool string "string option" "string option"
  | OnFinalize string "jsnum option"

definition draftShown :: "props \<Rightarrow> bool" where
  \<comment> \<open>\<open>script && !finalJsonScript\<close>: the revision box and the footer are rendered\<close>
  "draftShown p = (\<not> falsy (script p) \<and> falsy (finalJsonScript p))"

fun step :: "props \<Rightarrow> modalState \<Rightarrow> event \<Rightarrow> modalState \<times> call option" where
  \<comment> \<open>an event of a control that is rendered and enabled; any other one changes nothing.
      The effects that pick a narration style are left out: the style is the one the
      state holds.\<close>
  "step p st (ChangeSuggestion v) =
     (if draftShown p then (st\<lparr>suggestion := v\<rparr>, None) else (st, None))"
| "step p st (ChangeNumberOfScenes v) =
     (if draftShown p then (st\<lparr>numberOfScenes := v\<rparr>, None) else (st, None))"
| "step p st (ChangeJsonSceneDuration v) =
     (if draftShown p then (st\<lparr>jsonSceneDuration := v\<rparr>, None) else (st, None))"
| "step p st ClickRegenerate =
     (if draftShown p \<and> \<not> (isLoading p \<or> suggestion st = [])
      then (st, Some (OnGenerate (selectedDuration st) (noNarration st) (language st)
                        (Some (suggestion st)) (selectedNarrationStyle st)))
      else (st, None))"
| "step p st ClickFinalize =
     (if draftShown p \<and> \<not> isLoading p
      then (st, Some (OnFinalize (jsonSceneDuration st)
                        (if numberOfScenes st \<noteq> [] then Some (parseInt (numberOfScenes st))
                         else None)))
      else (st, None))"

fun run :: "props \<Rightarrow> modalState \<Rightarrow> event list \<Rightarrow> modalState \<times> call list" where
  "run p st [] = (st, [])"
| "run p st (e # es) =
     (let (st', c) = step p st e; (st'', cs) = run p st' es
      in (st'', (case c of None \<Rightarrow> cs | Some x \<Rightarrow> x # cs)))"

section \<open>\<open>components/HistoryDetailModal.tsx\<close>\<close>

record SeoContent =
  seoTitle :: string
  seoDescription :: string
  seoTags :: "string list"

record ScriptHistoryItem =
  idea :: Idea
  jsonScript :: string
  seoContent :: SeoContent

record historyView =
  heading :: string
  finalProductionJson :: element
  seoResult :: SeoContent

definition renderJson :: "(json \<Rightarrow> string) \<Rightarrow> string \<Rightarrow> js_error + element" where
  \<comment> \<open>\<open>JSON.stringify(JSON.parse(jsonString), null, 2)\<close> in a \<open>pre\<close>; the printer
      \<open>JSON.stringify(_, null, 2)\<close> is the argument\<close>
  "renderJson stringify jsonString =
     (case JSON_parse jsonString of
        Inl e \<Rightarrow> Inl e
      | Inr v \<Rightarrow> Inr (Pre (stringify v)))"

definition HistoryDetailModal ::
  "(json \<Rightarrow> string) \<Rightarrow> ScriptHistoryItem option \<Rightarrow> js_error + historyView option" where
  \<comment> \<open>rendering the component: \<open>null\<close> without an item, else the view; an exception of
      \<open>renderJson\<close> leaves the render\<close>
  "HistoryDetailModal stringify item =
     (case item of
        None \<Rightarrow> Inr None
      | Some it \<Rightarrow>
          (case renderJson stringify (jsonScript it) of
             Inl e \<Rightarrow> Inl e
           | Inr el \<Rightarrow>
               Inr (Some \<lparr>heading = ''For idea: '' @ [CHR 0x22] @ title (idea it) @ [CHR 0x22],
                          finalProductionJson = el,
                          seoResult = seoContent it\<rparr>)))"


section \<open>The bound of the JSON parser\<close>

text \<open>
  Every call of the parser that succeeds leaves less text than it was given, so the
  chain of calls on a text of length \<open>l\<close> is shorter than \<open>2 * l + 2\<close>: whatever any
  larger bound lets the parser accept, \<^const>\<open>JSON_parse\<close> accepts with the same value. A
  \<open>SyntaxError\<close> of the model is therefore a fault of the text, never the bound.
\<close>

lemma parseDigits_shorter: "parseDigits s = Some (ds, r) \<Longrightarrow> length r \<le> length s"
  by (auto simp add: parseDigits_def Let_def length_dropWhile_le split: if_splits)

lemma parseInt10_shorter: "parseInt10 s = Some (ds, r) \<Longrightarrow> length r < length s"
  by (auto simp add: parseInt10_def length_dropWhile_le less_Suc_eq_le split: list.splits if_splits)

lemma parseFrac_shorter: "parseFrac s = Some (ds, r) \<Longrightarrow> length r \<le> length s"
  by (auto simp add: parseFrac_def split: list.splits if_splits dest!: parseDigits_shorter)

lemma parseExp_shorter: "parseExp s = Some (ds, r) \<Longrightarrow> length r \<le> length s"
  by (auto simp add: parseExp_def split: list.splits if_splits dest!: parseDigits_shorter)


lemma parseNumber_shorter: "parseNumber s = Some (lit, r) \<Longrightarrow> length r < length s"
proof -
  assume a: "parseNumber s = Some (lit, r)"
  obtain sign s1 where s1: "(case s of [] \<Rightarrow> ([], s) | c # r \<Rightarrow> if c = CHR ''-'' then ([c], r) else ([], s)) = (sign, s1)"
    by force
  then have l1: "length s1 \<le> length s"
    by (auto split: list.splits if_splits)
  from a s1 obtain ip s2 where i: "parseInt10 s1 = Some (ip, s2)"
    by (auto simp add: parseNumber_def split: option.splits)
  from a s1 i obtain fp s3 where f: "parseFrac s2 = Some (fp, s3)"
    by (auto simp add: parseNumber_def split: option.splits)
  from a s1 i f obtain ep where e: "parseExp s3 = Some (ep, r)"
    by (auto simp add: parseNumber_def split: option.splits)
  from parseInt10_shorter [OF i] parseFrac_shorter [OF f] parseExp_shorter [OF e] l1
  show ?thesis by simp
qed


lemma consUnit_Some: "consUnit u x = Some (us, r) \<Longrightarrow> \<exists>us'. x = Some (us', r)"
  by (cases x) (auto simp add: consUnit_def)

lemma parseStringBody_shorter:
  "parseStringBody s = Some (us, r) \<Longrightarrow> length r < length s"
proof (induction s arbitrary: us r rule: length_induct)
  case (1 s)
  note IH = "1.IH" [rule_format]
  show ?case
  proof (cases s)
    case Nil
    with "1.prems" show ?thesis by simp
  next
    case (Cons c cs)
    consider (quote) "c = CHR 0x22"
      | (plain) "c \<noteq> CHR 0x22" "c \<noteq> CHR 0x5C"
      | (esc) "c \<noteq> CHR 0x22" "c = CHR 0x5C"
      by blast
    then show ?thesis
    proof cases
      case quote
      with "1.prems" Cons show ?thesis by simp
    next
      case plain
      with "1.prems" Cons obtain us' where "parseStringBody cs = Some (us', r)"
        by (auto split: if_splits dest: consUnit_Some)
      then have "length r < length cs"
        using IH [of cs us' r] Cons by simp
      with Cons show ?thesis by simp
    next
      case esc
      show ?thesis
      proof (cases cs)
        case Nil
        with "1.prems" Cons esc show ?thesis by simp
      next
        case c2: (Cons e r0)
        show ?thesis
        proof (cases "e = CHR ''u''")
          case False
          with "1.prems" Cons esc c2 obtain us' where "parseStringBody r0 = Some (us', r)"
            by (auto split: option.splits dest: consUnit_Some)
          then have "length r < length r0"
            using IH [of r0 us' r] Cons c2 by simp
          with Cons c2 show ?thesis by simp
        next
          case True
          with "1.prems" Cons esc c2 obtain h1 h2 h3 h4 r' us'
            where r0: "r0 = h1 # h2 # h3 # h4 # r'" and p: "parseStringBody r' = Some (us', r)"
            by (auto split: list.splits option.splits dest: consUnit_Some)
          from p have "length r < length r'"
            using IH [of r' us' r] Cons c2 r0 by simp
          with Cons c2 r0 show ?thesis by simp
        qed
      qed
    qed
  qed
qed


lemma ws_rest_shorter: "dropWhile isJsonWs s = c # cs \<Longrightarrow> length cs < length s"
proof -
  assume "dropWhile isJsonWs s = c # cs"
  then have "Suc (length cs) = length (dropWhile isJsonWs s)" by simp
  also have "\<dots> \<le> length s" by (rule length_dropWhile_le)
  finally show ?thesis by simp
qed

lemma parseValue_Suc_shorter:
  assumes E: "\<And>s vs r. parseElements n s = Some (vs, r) \<Longrightarrow> length r < length s"
    and M: "\<And>s ms r. parseMembers n s = Some (ms, r) \<Longrightarrow> length r < length s"
    and p: "parseValue (Suc n) s = Some (v, r)"
  shows "length r < length s"
proof -
  from p obtain c cs where d: "dropWhile isJsonWs s = c # cs"
    by (auto split: list.splits)
  note l = ws_rest_shorter [OF d]
  from p d have
    "(if c = CHR ''n'' then (if startsWith cs ''ull'' then Some (JNull, drop 3 cs) else None)
      else if c = CHR ''t'' then (if startsWith cs ''rue'' then Some (JBool True, drop 3 cs) else None)
      else if c = CHR ''f'' then (if startsWith cs ''alse'' then Some (JBool False, drop 4 cs) else None)
      else if c = CHR 0x22 then map_option (\<lambda>(us, r). (JString us, r)) (parseStringBody cs)
      else if c = CHR ''['' then
        (case dropWhile isJsonWs cs of
           [] \<Rightarrow> None
         | d # r \<Rightarrow> if d = CHR '']'' then Some (JArray [], r)
                    else map_option (\<lambda>(vs, r'). (JArray vs, r')) (parseElements n cs))
      else if c = CHR ''{'' then
        (case dropWhile isJsonWs cs of
           [] \<Rightarrow> None
         | d # r \<Rightarrow> if d = CHR ''}'' then Some (JObject [], r)
                    else map_option (\<lambda>(ms, r'). (JObject ms, r')) (parseMembers n cs))
      else map_option (\<lambda>(lit, r). (JNumber lit, r)) (parseNumber (c # cs))) = Some (v, r)"
    by simp
  then consider
      (lit) "length r \<le> length cs"
    | (str) us where "parseStringBody cs = Some (us, r)"
    | (arr0) d0 where "dropWhile isJsonWs cs = d0 # r"
    | (arr) vs where "parseElements n cs = Some (vs, r)"
    | (obj) ms where "parseMembers n cs = Some (ms, r)"
    | (num) lit where "parseNumber (c # cs) = Some (lit, r)"
    by (auto split: if_splits list.splits)
  then show ?thesis
  proof cases
    case lit
    with l show ?thesis by simp
  next
    case str
    from parseStringBody_shorter [OF this] l show ?thesis by simp
  next
    case arr0
    from ws_rest_shorter [OF this] l show ?thesis by simp
  next
    case arr
    from E [OF this] l show ?thesis by simp
  next
    case obj
    from M [OF this] l show ?thesis by simp
  next
    case num
    from parseNumber_shorter [OF this] d have "length r < length (dropWhile isJsonWs s)" by simp
    also have "\<dots> \<le> length s" by (rule length_dropWhile_le)
    finally show ?thesis .
  qed
qed


lemma parseElements_Suc_shorter:
  assumes V: "\<And>s v r. parseValue n s = Some (v, r) \<Longrightarrow> length r < length s"
    and E: "\<And>s vs r. parseElements n s = Some (vs, r) \<Longrightarrow> length r < length s"
    and p: "parseElements (Suc n) s = Some (vs, r)"
  shows "length r < length s"
proof -
  from p obtain v r1 where v: "parseValue n s = Some (v, r1)"
    by (auto split: option.splits)
  from p v obtain c r' where d: "dropWhile isJsonWs r1 = c # r'"
    by (auto split: list.splits)
  from V [OF v] ws_rest_shorter [OF d] have l: "length r' < length s" by simp
  from p v d consider (more) vs' where "parseElements n r' = Some (vs', r)" | (last) "r = r'"
    by (auto split: if_splits)
  then show ?thesis
  proof cases
    case more
    from E [OF this] l show ?thesis by simp
  next
    case last
    with l show ?thesis by simp
  qed
qed

lemma parseMembers_Suc_shorter:
  assumes V: "\<And>s v r. parseValue n s = Some (v, r) \<Longrightarrow> length r < length s"
    and M: "\<And>s ms r. parseMembers n s = Some (ms, r) \<Longrightarrow> length r < length s"
    and p: "parseMembers (Suc n) s = Some (ms, r)"
  shows "length r < length s"
proof -
  from p obtain q s1 where d1: "dropWhile isJsonWs s = q # s1"
    by (auto split: list.splits)
  from p d1 obtain k s2 where k: "parseStringBody s1 = Some (k, s2)"
    by (auto split: if_splits option.splits)
  from p d1 k obtain colon s3 where d2: "dropWhile isJsonWs s2 = colon # s3"
    by (auto split: if_splits list.splits)
  from p d1 k d2 obtain v s4 where v: "parseValue n s3 = Some (v, s4)"
    by (auto split: if_splits option.splits)
  from p d1 k d2 v obtain c s5 where d3: "dropWhile isJsonWs s4 = c # s5"
    by (auto split: if_splits list.splits)
  from ws_rest_shorter [OF d1] parseStringBody_shorter [OF k] ws_rest_shorter [OF d2]
    V [OF v] ws_rest_shorter [OF d3]
  have l: "length s5 < length s" by simp
  from p d1 k d2 v d3 consider (more) ms' where "parseMembers n s5 = Some (ms', r)" | (last) "r = s5"
    by (auto split: if_splits)
  then show ?thesis
  proof cases
    case more
    from M [OF this] l show ?thesis by simp
  next
    case last
    with l show ?thesis by simp
  qed
qed

lemma parse_shorter:
  "(\<forall>s v r. parseValue n s = Some (v, r) \<longrightarrow> length r < length s) \<and>
   (\<forall>s vs r. parseElements n s = Some (vs, r) \<longrightarrow> length r < length s) \<and>
   (\<forall>s ms r. parseMembers n s = Some (ms, r) \<longrightarrow> length r < length s)"
proof (induction n)
  case 0
  show ?case by simp
next
  case (Suc n)
  then have V: "\<And>s v r. parseValue n s = Some (v, r) \<Longrightarrow> length r < length s"
    and E: "\<And>s vs r. parseElements n s = Some (vs, r) \<Longrightarrow> length r < length s"
    and M: "\<And>s ms r. parseMembers n s = Some (ms, r) \<Longrightarrow> length r < length s"
    by blast+
  have "length r < length s" if "parseValue (Suc n) s = Some (v, r)" for s v r
    using E M that by (rule parseValue_Suc_shorter)
  moreover have "length r < length s" if "parseElements (Suc n) s = Some (vs, r)" for s vs r
    using V E that by (rule parseElements_Suc_shorter)
  moreover have "length r < length s" if "parseMembers (Suc n) s = Some (ms, r)" for s ms r
    using V M that by (rule parseMembers_Suc_shorter)
  ultimately show ?case by blast
qed

lemma parseValue_shorter: "parseValue n s = Some (v, r) \<Longrightarrow> length r < length s"
  using parse_shorter by blast

lemma parseValue_Suc_fuel:
  assumes E: "\<And>s x k. parseElements m s = Some x \<Longrightarrow> 2 * length s + 1 \<le> k \<Longrightarrow> parseElements k s = Some x"
    and M: "\<And>s x k. parseMembers m s = Some x \<Longrightarrow> 2 * length s + 1 \<le> k \<Longrightarrow> parseMembers k s = Some x"
    and p: "parseValue (Suc m) s = Some x"
    and k: "2 * length s \<le> k"
  shows "parseValue k s = Some x"
proof -
  from p obtain c cs where d: "dropWhile isJsonWs s = c # cs"
    by (auto split: list.splits)
  note l = ws_rest_shorter [OF d]
  with k obtain k' where k': "k = Suc k'" and b: "2 * length cs + 1 \<le> k'"
    by (cases k) auto
  have E': "parseElements k' cs = Some y" if "parseElements m cs = Some y" for y
    using that b by (rule E)
  have M': "parseMembers k' cs = Some y" if "parseMembers m cs = Some y" for y
    using that b by (rule M)
  have "parseValue (Suc k') s = Some x"
    using p d E' M'
    by (cases "dropWhile isJsonWs cs") (auto simp del: dropWhile_eq_Nil_conv split: if_splits)
  with k' show ?thesis by simp
qed



lemma parseElements_Suc_fuel:
  assumes V: "\<And>s x k. parseValue m s = Some x \<Longrightarrow> 2 * length s \<le> k \<Longrightarrow> parseValue k s = Some x"
    and E: "\<And>s x k. parseElements m s = Some x \<Longrightarrow> 2 * length s + 1 \<le> k \<Longrightarrow> parseElements k s = Some x"
    and p: "parseElements (Suc m) s = Some x"
    and k: "2 * length s + 1 \<le> k"
  shows "parseElements k s = Some x"
proof -
  from k obtain k' where k': "k = Suc k'" and b: "2 * length s \<le> k'"
    by (cases k) auto
  from p obtain v r1 where v: "parseValue m s = Some (v, r1)"
    by (auto split: option.splits)
  from p v obtain c r' where d: "dropWhile isJsonWs r1 = c # r'"
    by (auto split: list.splits)
  from parseValue_shorter [OF v] ws_rest_shorter [OF d] b have b': "2 * length r' + 1 \<le> k'"
    by simp
  have v': "parseValue k' s = Some (v, r1)"
    using v b by (rule V)
  have E': "parseElements k' r' = Some y" if "parseElements m r' = Some y" for y
    using that b' by (rule E)
  have "parseElements (Suc k') s = Some x"
    using p v v' d E' by (auto split: if_splits)
  with k' show ?thesis by simp
qed


lemma parseMembers_Suc_fuel:
  assumes V: "\<And>s x k. parseValue m s = Some x \<Longrightarrow> 2 * length s \<le> k \<Longrightarrow> parseValue k s = Some x"
    and M: "\<And>s x k. parseMembers m s = Some x \<Longrightarrow> 2 * length s + 1 \<le> k \<Longrightarrow> parseMembers k s = Some x"
    and p: "parseMembers (Suc m) s = Some x"
    and k: "2 * length s + 1 \<le> k"
  shows "parseMembers k s = Some x"
proof -
  from k obtain k' where k': "k = Suc k'" and b: "2 * length s \<le> k'"
    by (cases k) auto
  from p obtain q s1 where d1: "dropWhile isJsonWs s = q # s1"
    by (auto split: list.splits)
  from p d1 obtain key s2 where ky: "parseStringBody s1 = Some (key, s2)"
    by (auto split: if_splits option.splits)
  from p d1 ky obtain colon s3 where d2: "dropWhile isJsonWs s2 = colon # s3"
    by (auto split: if_splits list.splits)
  from p d1 ky d2 obtain v s4 where v: "parseValue m s3 = Some (v, s4)"
    by (auto split: if_splits option.splits)
  from p d1 ky d2 v obtain c s5 where d3: "dropWhile isJsonWs s4 = c # s5"
    by (auto split: if_splits list.splits)
  from ws_rest_shorter [OF d1] parseStringBody_shorter [OF ky] ws_rest_shorter [OF d2]
  have l3: "length s3 < length s" by simp
  with b have b3: "2 * length s3 \<le> k'" by simp
  from l3 parseValue_shorter [OF v] ws_rest_shorter [OF d3] b
  have b5: "2 * length s5 + 1 \<le> k'" by simp
  have v': "parseValue k' s3 = Some (v, s4)"
    using v b3 by (rule V)
  have M': "parseMembers k' s5 = Some y" if "parseMembers m s5 = Some y" for y
    using that b5 by (rule M)
  have "parseMembers (Suc k') s = Some x"
    using p d1 ky d2 v v' d3 M' by (auto split: if_splits)
  with k' show ?thesis by simp
qed


lemma parse_fuel:
  "(\<forall>s x k. parseValue m s = Some x \<longrightarrow> 2 * length s \<le> k \<longrightarrow> parseValue k s = Some x) \<and>
   (\<forall>s x k. parseElements m s = Some x \<longrightarrow> 2 * length s + 1 \<le> k \<longrightarrow> parseElements k s = Some x) \<and>
   (\<forall>s x k. parseMembers m s = Some x \<longrightarrow> 2 * length s + 1 \<le> k \<longrightarrow> parseMembers k s = Some x)"
proof (induction m)
  case 0
  show ?case by simp
next
  case (Suc m)
  then have V: "\<And>s x k. parseValue m s = Some x \<Longrightarrow> 2 * length s \<le> k \<Longrightarrow> parseValue k s = Some x"
    and E: "\<And>s x k. parseElements m s = Some x \<Longrightarrow> 2 * length s + 1 \<le> k \<Longrightarrow> parseElements k s = Some x"
    and M: "\<And>s x k. parseMembers m s = Some x \<Longrightarrow> 2 * length s + 1 \<le> k \<Longrightarrow> parseMembers k s = Some x"
    by blast+
  have "parseValue k s = Some x" if "parseValue (Suc m) s = Some x" "2 * length s \<le> k" for s x k
    using E M that by (rule parseValue_Suc_fuel)
  moreover have "parseElements k s = Some x"
    if "parseElements (Suc m) s = Some x" "2 * length s + 1 \<le> k" for s x k
    using V E that by (rule parseElements_Suc_fuel)
  moreover have "parseMembers k s = Some x"
    if "parseMembers (Suc m) s = Some x" "2 * length s + 1 \<le> k" for s x k
    using V M that by (rule parseMembers_Suc_fuel)
  ultimately show ?case by blast
qed

lemma JSON_parse_any_fuel:
  assumes "parseValue m s = Some (v, r)" and "dropWhile isJsonWs r = []"
  shows "JSON_parse s = Inr v"
proof -
  from parse_fuel [of m]
  have "parseValue m s = Some (v, r) \<longrightarrow> 2 * length s \<le> 2 * length s + 2 \<longrightarrow>
        parseValue (2 * length s + 2) s = Some (v, r)"
    by blast
  with assms(1) have "parseValue (2 * length s + 2) s = Some (v, r)"
    by simp
  with assms(2) show ?thesis by (simp add: JSON_parse_def)
qed

section \<open>The service module without a credential\<close>

text \<open>
  C1. For every genre and duration, \<open>generateShortsIdeas\<close> called while no API
  credential is configured (\<open>process.env.API_KEY\<close> undefined or empty) fails with the
  configuration error of \<open>getGenAIClient\<close>, not with the error the operation raises for
  a failure of the endpoint, and it has sent no request.
\<close>

theorem generateShortsIdeas_without_credential:
  assumes "falsy apiKey"
  shows "generateShortsIdeas apiKey net g d =
           (Inl (Error ''API_KEY environment variable is not set.''), []) \<and>
         fst (generateShortsIdeas apiKey net g d) \<noteq>
           Inl (Error ''Failed to generate ideas from Gemini API.'')"
  using assms
  by (auto simp add: generateShortsIdeas_def getGenAIClient_def falsy_def split: option.splits)

theorem generateShortsIdeas_without_credential_witness:
  "falsy None \<and>
   generateShortsIdeas None (\<lambda>req. Inr \<lparr>response_text = Some ''ideas''\<rparr>) ''Comedy'' ''30 seconds'' =
     (Inl (Error ''API_KEY environment variable is not set.''), [])"
proof -
  have h: "falsy None" by (simp add: falsy_def)
  from generateShortsIdeas_without_credential [OF h] h show ?thesis by simp
qed

section \<open>Stripping the fences of the finalized script\<close>

lemma trim_keeps_fence: "startsWith (trim (''```'' @ x)) ''```''"
proof -
  have "trim (''```'' @ x) = rev (dropWhile isWhiteSpace (rev x @ ''```''))"
    by (simp add: trim_def isWhiteSpace_def)
  also have "\<dots> = ''```'' @ rev (dropWhile isWhiteSpace (rev x))"
    by (simp add: dropWhile_append isWhiteSpace_def)
  finally show ?thesis by (simp add: startsWith_def)
qed

text \<open>
  C2. The fence stripping of \<open>finalizeScriptAsJson\<close>, on the response text made of the
  line \<open>```json\<close>, the line \<open>[{"scene":1}]\<close> and the line \<open>```\<close>, returns exactly
  \<open>[{"scene":1}]\<close>.
\<close>

theorem stripFences_example:
  \<open>stripFences ''```json\<newline>[{"scene":1}]\<newline>```'' = ''[{"scene":1}]''\<close>
  by code_simp

text \<open>
  C8. A text without white space around it, without the marker \<open>```json\<close> at its start
  and without the marker \<open>```\<close> at its end comes back from the fence stripping unchanged.
\<close>

theorem stripFences_clean_unchanged:
  assumes "trim text = text" and "\<not> startsWith text ''```json''" and "\<not> endsWith text ''```''"
  shows "stripFences text = text"
  using assms by (simp add: stripFences_def Let_def)

theorem stripFences_clean_unchanged_witness:
  \<open>stripFences ''[{"scene":1}]'' = ''[{"scene":1}]''\<close>
proof -
  have a: \<open>trim ''[{"scene":1}]'' = ''[{"scene":1}]''\<close> by code_simp
  have b: \<open>\<not> startsWith ''[{"scene":1}]'' ''```json''\<close> by code_simp
  have c: \<open>\<not> endsWith ''[{"scene":1}]'' ''```''\<close> by code_simp
  show ?thesis by (rule stripFences_clean_unchanged [OF a b c])
qed

text \<open>
  C9. A response that, trimmed, opens with a line holding only \<open>```\<close> and ends with
  \<open>```\<close> does not start with \<open>```json\<close>: the closing fence is removed, the opening one
  is kept, and the result still starts with \<open>```\<close>.
\<close>

theorem stripFences_plain_opening_fence:
  assumes u: "trim text = ''```'' @ CHR ''\<newline>'' # body @ ''```''"
  shows "\<not> startsWith (trim text) ''```json'' \<and>
         stripFences text = trim (''```'' @ CHR ''\<newline>'' # body) \<and>
         startsWith (stripFences text) ''```''"
proof -
  have a: "\<not> startsWith (trim text) ''```json''"
    by (simp add: u startsWith_def)
  have b: "endsWith (trim text) ''```''"
    by (simp add: u endsWith_def)
  have c: "substring (trim text) 0 (length (trim text) - 3) = ''```'' @ CHR ''\<newline>'' # body"
    by (simp add: u substring_def)
  have d: "stripFences text = trim (''```'' @ CHR ''\<newline>'' # body)"
    using a b c by (simp add: stripFences_def Let_def)
  show ?thesis using a d trim_keeps_fence by simp
qed

theorem stripFences_plain_opening_fence_witness:
  "stripFences ''```\<newline>[1]\<newline>```'' = trim (''```'' @ CHR ''\<newline>'' # ''[1]\<newline>'') \<and>
   startsWith (stripFences ''```\<newline>[1]\<newline>```'') ''```''"
proof -
  have h: "trim ''```\<newline>[1]\<newline>```'' = ''```'' @ CHR ''\<newline>'' # ''[1]\<newline>'' @ ''```''"
    by code_simp
  show ?thesis by (rule conjunct2 [OF stripFences_plain_opening_fence [OF h]])
qed


section \<open>Trending topics\<close>

lemma topics_example:
  "map (\<lambda>topic. toLowerCase (trim topic)) (splitStr (trim ''Cats, Dogs ,  Birds'') '','') =
     [''cats'', ''dogs'', ''birds'']"
  by code_simp

lemma topics_example_not_blank: "trim ''Cats, Dogs ,  Birds'' \<noteq> []"
  by code_simp

text \<open>
  C6. With a credential, \<open>getTrendingTopics\<close> maps the response text
  \<open>Cats, Dogs ,  Birds\<close> to the topics \<open>cats\<close>, \<open>dogs\<close>, \<open>birds\<close> in this order, and a
  response text that is empty or all white space to no topic at all.
\<close>

theorem getTrendingTopics_parses:
  assumes "getGenAIClient apiKey = Inr ai"
    and "net (trendingRequest genres) = Inr \<lparr>response_text = Some t\<rparr>"
  shows "(t = ''Cats, Dogs ,  Birds'' \<longrightarrow>
            fst (getTrendingTopics apiKey net genres) = Inr [''cats'', ''dogs'', ''birds'']) \<and>
         (trim t = [] \<longrightarrow> fst (getTrendingTopics apiKey net genres) = Inr [])"
proof (intro conjI impI)
  assume t: "t = ''Cats, Dogs ,  Birds''"
  show "fst (getTrendingTopics apiKey net genres) = Inr [''cats'', ''dogs'', ''birds'']"
    using assms topics_example topics_example_not_blank
    by (simp add: getTrendingTopics_def Let_def catchAs_def trimText_def t)
next
  assume "trim t = []"
  then show "fst (getTrendingTopics apiKey net genres) = Inr []"
    using assms by (simp add: getTrendingTopics_def Let_def catchAs_def trimText_def)
qed

theorem getTrendingTopics_parses_witness:
  "fst (getTrendingTopics (Some ''key'')
          (\<lambda>req. Inr \<lparr>response_text = Some ''Cats, Dogs ,  Birds''\<rparr>) [''Comedy'']) =
     Inr [''cats'', ''dogs'', ''birds''] \<and>
   fst (getTrendingTopics (Some ''key'') (\<lambda>req. Inr \<lparr>response_text = Some ''  ''\<rparr>) [''Comedy'']) =
     Inr []"
proof -
  have k: "getGenAIClient (Some ''key'') = Inr ''key''"
    by (simp add: getGenAIClient_def)
  have b: "trim ''  '' = []" by code_simp
  have n1: "(\<lambda>req. Inr \<lparr>response_text = Some ''Cats, Dogs ,  Birds''\<rparr>) (trendingRequest [''Comedy'']) =
              (Inr \<lparr>response_text = Some ''Cats, Dogs ,  Birds''\<rparr> :: js_error + response)"
    by simp
  have n2: "(\<lambda>req. Inr \<lparr>response_text = Some ''  ''\<rparr>) (trendingRequest [''Comedy'']) =
              (Inr \<lparr>response_text = Some ''  ''\<rparr> :: js_error + response)"
    by simp
  from getTrendingTopics_parses [OF k n1] getTrendingTopics_parses [OF k n2] b
  show ?thesis by blast
qed

section \<open>The narration suggestions of a draft\<close>

text \<open>
  C3, as stated, fails. The draft of the claim has a numbered suggestion line before the
  three-dash separator but not the heading \<open>suggested narration styles\<close> that
  \<open>draftParts\<close> asks of a suggestion block: no suggestion is parsed, and the scene
  table is the whole draft, not the text after the separator.
\<close>

theorem parsedSuggestions_without_heading:
  "parsedSuggestions (narrationSuggestions (Some
     ''1. **Calm:** soft tone *because it fits*\<newline>---\<newline>|Timestamp|Action|\<newline>|-|-|\<newline>|0:00|Open|'')) = [] \<and>
   parsedSuggestions (narrationSuggestions (Some
     ''1. **Calm:** soft tone *because it fits*\<newline>---\<newline>|Timestamp|Action|\<newline>|-|-|\<newline>|0:00|Open|'')) \<noteq>
     [\<lparr>name = ''Calm'', description = ''soft tone'', justification = ''because it fits''\<rparr>] \<and>
   scriptTable (Some
     ''1. **Calm:** soft tone *because it fits*\<newline>---\<newline>|Timestamp|Action|\<newline>|-|-|\<newline>|0:00|Open|'') =
   Some ''1. **Calm:** soft tone *because it fits*\<newline>---\<newline>|Timestamp|Action|\<newline>|-|-|\<newline>|0:00|Open|''"
  by code_simp

text \<open>
  C3, amended. When the block before the separator carries the heading, here the line
  \<open>Suggested Narration Styles\<close> before the suggestion line of the claim, the parser
  yields exactly the suggestion Calm / soft tone / because it fits, and the scene table
  is the text after the separator line.
\<close>

theorem parsedSuggestions_with_heading:
  "parsedSuggestions (narrationSuggestions (Some
     ''Suggested Narration Styles\<newline>1. **Calm:** soft tone *because it fits*\<newline>---\<newline>|Timestamp|Action|\<newline>|-|-|\<newline>|0:00|Open|'')) =
     [\<lparr>name = ''Calm'', description = ''soft tone'', justification = ''because it fits''\<rparr>] \<and>
   scriptTable (Some
     ''Suggested Narration Styles\<newline>1. **Calm:** soft tone *because it fits*\<newline>---\<newline>|Timestamp|Action|\<newline>|-|-|\<newline>|0:00|Open|'') =
   Some ''|Timestamp|Action|\<newline>|-|-|\<newline>|0:00|Open|''"
  by code_simp

section \<open>A response of the SEO operation that is not JSON\<close>

text \<open>
  C4, as stated, fails. \<open>generateSeoContent\<close> parses inside the \<open>try\<close> block whose
  \<open>catch\<close> replaces every error: for the response text \<open>not json\<close> it fails with the
  very error it raises when the endpoint rejects the request.
\<close>

theorem generateSeoContent_invalid_json_same_error:
  "JSON_parse (trim ''not json'') = Inl SyntaxError \<and>
   fst (generateSeoContent (Some ''key'') (\<lambda>req. Inr \<lparr>response_text = Some ''not json''\<rparr>) ''[]''
          \<lparr>title = ''t'', concept = ''c'', storyArc = ''a'', genre = ''g'', duration = ''d'',
             visualsAndAudio = ''v''\<rparr>) =
     Inl (Error ''Failed to generate SEO content from Gemini API.'') \<and>
   fst (generateSeoContent (Some ''key'') (\<lambda>req. Inl (Error ''503 Service Unavailable'')) ''[]''
          \<lparr>title = ''t'', concept = ''c'', storyArc = ''a'', genre = ''g'', duration = ''d'',
             visualsAndAudio = ''v''\<rparr>) =
     Inl (Error ''Failed to generate SEO content from Gemini API.'')"
proof -
  have p: "JSON_parse (trim ''not json'') = Inl SyntaxError" by code_simp
  show ?thesis
    using p by (simp add: generateSeoContent_def getGenAIClient_def catchAs_def trimText_def Let_def)
qed

text \<open>
  C4, amended. For every response text whose trimmed form \<open>JSON.parse\<close> rejects
  (the operation trims the text before it parses, so white space that JSON does not
  allow around a value is gone by then), \<open>generateSeoContent\<close> fails, after its one
  request, with the error \<open>Failed to generate SEO content from Gemini API.\<close>, the same
  outcome as when the endpoint rejects the request.
\<close>

theorem generateSeoContent_invalid_json:
  assumes "getGenAIClient apiKey = Inr ai"
    and "net (seoRequest finalJson i) = Inr \<lparr>response_text = Some t\<rparr>"
    and "JSON_parse (trim t) = Inl e"
    and "net' (seoRequest finalJson i) = Inl e'"
  shows "generateSeoContent apiKey net finalJson i =
           (Inl (Error ''Failed to generate SEO content from Gemini API.''), [seoRequest finalJson i]) \<and>
         generateSeoContent apiKey net' finalJson i = generateSeoContent apiKey net finalJson i"
  using assms by (simp add: generateSeoContent_def catchAs_def trimText_def Let_def)

theorem generateSeoContent_invalid_json_witness:
  "generateSeoContent (Some ''key'') (\<lambda>req. Inr \<lparr>response_text = Some ''not json''\<rparr>) ''[]''
          \<lparr>title = ''t'', concept = ''c'', storyArc = ''a'', genre = ''g'', duration = ''d'',
             visualsAndAudio = ''v''\<rparr> =
     (Inl (Error ''Failed to generate SEO content from Gemini API.''),
      [seoRequest ''[]'' \<lparr>title = ''t'', concept = ''c'', storyArc = ''a'', genre = ''g'',
                         duration = ''d'', visualsAndAudio = ''v''\<rparr>])"
proof -
  have k: "getGenAIClient (Some ''key'') = Inr ''key''"
    by (simp add: getGenAIClient_def)
  have p: "JSON_parse (trim ''not json'') = Inl SyntaxError" by code_simp
  have n: "(\<lambda>req. Inr \<lparr>response_text = Some ''not json''\<rparr>)
             (seoRequest ''[]'' \<lparr>title = ''t'', concept = ''c'', storyArc = ''a'', genre = ''g'',
                         duration = ''d'', visualsAndAudio = ''v''\<rparr>) =
           (Inr \<lparr>response_text = Some ''not json''\<rparr> :: js_error + response)"
    by simp
  have n': "(\<lambda>req. Inl (Error ''503'') :: js_error + response)
             (seoRequest ''[]'' \<lparr>title = ''t'', concept = ''c'', storyArc = ''a'', genre = ''g'',
                         duration = ''d'', visualsAndAudio = ''v''\<rparr>) = Inl (Error ''503'')"
    by simp
  show ?thesis by (rule conjunct1 [OF generateSeoContent_invalid_json [OF k n p n']])
qed

section \<open>The finalize button\<close>

lemma bitLength_le: "bitLength n \<le> k \<longleftrightarrow> n < 2 ^ k"
proof (induction k arbitrary: n)
  case 0
  show ?case by (subst bitLength.simps) simp
next
  case (Suc k)
  have "bitLength n \<le> Suc k \<longleftrightarrow> n = 0 \<or> bitLength (n div 2) \<le> k"
    by (subst bitLength.simps) simp
  also have "\<dots> \<longleftrightarrow> n = 0 \<or> n div 2 < 2 ^ k"
    by (simp only: Suc.IH)
  also have "\<dots> \<longleftrightarrow> n < 2 ^ Suc k"
    by auto
  finally show ?case .
qed

lemma toNumber_exact:
  assumes "n < 2 ^ 53"
  shows "toNumber n = Some n"
proof -
  from assms have b: "bitLength n \<le> 53" by (simp only: bitLength_le)
  then have "bitLength n - 53 = 0" and "\<not> 1024 < bitLength n" by simp_all
  then show ?thesis by (simp add: toNumber_def Let_def)
qed

lemma toNumber_rounds:
  "toNumber 9007199254740993 = Some 9007199254740992 \<and>
   toNumber 9007199254740995 = Some 9007199254740996"
  by (simp add: toNumber_def Let_def bitLength.simps)

text \<open>
  C7. The footer shows the bounds 5, 60 and 1 on its two number fields, but the button
  only looks at \<open>isLoading\<close>: with a draft on display, typing 100 as the scene duration
  and 0 as the number of scenes and pressing the button calls \<open>onFinalize\<close> with the
  duration \<open>100\<close> and the scene count 0. The button of the revision box, beside it,
  does hold its requirement: without a suggestion its click calls nothing.
\<close>

theorem finalize_out_of_range:
  "snd (run \<lparr>script = Some ''draft'', finalJsonScript = None, isLoading = False\<rparr>
          (initialState ''30 seconds'')
          [ChangeJsonSceneDuration ''100'', ChangeNumberOfScenes ''0'', ClickFinalize]) =
     [OnFinalize ''100'' (Some (Num 0))] \<and>
   parseInt ''100'' = Num 100 \<and>
   snd (run \<lparr>script = Some ''draft'', finalJsonScript = None, isLoading = False\<rparr>
          (initialState ''30 seconds'') [ClickRegenerate]) = []"
  by code_simp

section \<open>The history view\<close>

text \<open>
  C10. The history view parses the stored script without a guard: there is a history
  item, its \<open>jsonScript\<close> not JSON, whose rendering throws the SyntaxError of
  \<open>JSON.parse\<close>, whatever the printer. The body of the draft-table renderer, in
  contrast, throws for no text.
\<close>

theorem HistoryDetailModal_throws:
  "(\<exists>it. JSON_parse (jsonScript it) = Inl SyntaxError \<and>
         (\<forall>stringify. HistoryDetailModal stringify (Some it) = Inl SyntaxError)) \<and>
   (\<forall>markdown e. renderScriptTable_try markdown \<noteq> Inl e)"
proof
  let ?it = "\<lparr>idea = \<lparr>title = ''t'', concept = ''c'', storyArc = ''a'', genre = ''g'',
                        duration = ''d'', visualsAndAudio = ''v''\<rparr>,
              jsonScript = ''not json'',
              seoContent = \<lparr>seoTitle = ''s'', seoDescription = ''d'', seoTags = []\<rparr>\<rparr>"
  have p: "JSON_parse ''not json'' = Inl SyntaxError" by code_simp
  have "JSON_parse (jsonScript ?it) = Inl SyntaxError \<and>
        (\<forall>stringify. HistoryDetailModal stringify (Some ?it) = Inl SyntaxError)"
    using p by (simp add: HistoryDetailModal_def renderJson_def)
  then show "\<exists>it. JSON_parse (jsonScript it) = Inl SyntaxError \<and>
         (\<forall>stringify. HistoryDetailModal stringify (Some it) = Inl SyntaxError)"
    by (rule exI)
next
  show "\<forall>markdown e. renderScriptTable_try markdown \<noteq> Inl e"
    by (simp add: renderScriptTable_try_def Let_def split: option.split)
qed

section \<open>The table of a draft\<close>

lemma isWhiteSpace_code:
  "isWhiteSpace c \<longleftrightarrow> (of_char c :: nat) \<in> {9, 10, 11, 12, 13, 32, 160}"
proof -
  have eq: "c = d \<longleftrightarrow> (of_char c :: nat) = of_char d" for d
    by (simp only: of_char_eq_iff)
  show ?thesis
    unfolding isWhiteSpace_def
    by (simp add: eq [of "CHR 0x09"] eq [of "CHR 0x0A"] eq [of "CHR 0x0B"] eq [of "CHR 0x0C"]
        eq [of "CHR 0x0D"] eq [of "CHR 0x20"] eq [of "CHR 0xA0"])
qed

lemma isWhiteSpace_toLowerCaseChar: "isWhiteSpace (toLowerCaseChar c) = isWhiteSpace c"
proof (cases "(65 \<le> (of_char c :: nat) \<and> (of_char c :: nat) \<le> 90) \<or>
              (192 \<le> (of_char c :: nat) \<and> (of_char c :: nat) \<le> 222 \<and> (of_char c :: nat) \<noteq> 215)")
  case True
  have "(of_char (char_of ((of_char c :: nat) + 32)) :: nat) = (of_char c + 32) mod 256"
    by (simp only: of_char_of)
  with True have "(of_char (toLowerCaseChar c) :: nat) = of_char c + 32"
    by (auto simp add: toLowerCaseChar_def Let_def)
  with True show ?thesis
    by (auto simp add: isWhiteSpace_code)
next
  case False
  then have "toLowerCaseChar c = c"
    unfolding toLowerCaseChar_def Let_def by (simp only: if_False)
  then show ?thesis by simp
qed

lemma toLowerCase_dropWhile:
  "toLowerCase (dropWhile isWhiteSpace s) = dropWhile isWhiteSpace (toLowerCase s)"
  by (induction s) (simp_all add: toLowerCase_def isWhiteSpace_toLowerCaseChar)

lemma includesStr_dropWhile:
  assumes "includesStr s (x # xs)" and "\<not> P x"
  shows "includesStr (dropWhile P s) (x # xs)"
  using assms by (induction s) (auto simp add: startsWith_def)

lemma splitSep_absent: "c \<notin> set a \<Longrightarrow> splitSep [c] a = [a]"
  by (induction a) (auto simp add: startsWith_def)

lemma splitSep_first: "c \<notin> set a \<Longrightarrow> splitSep [c] (a @ c # b) = a # splitSep [c] b"
  by (induction a) (auto simp add: startsWith_def)

lemma isHeaderLine_dropWhile:
  assumes "isHeaderLine h"
  shows "isHeaderLine (dropWhile isWhiteSpace h)"
proof -
  have p: "\<not> isWhiteSpace (CHR ''|'')" and t: "\<not> isWhiteSpace (CHR ''t'')"
    by (simp_all add: isWhiteSpace_def)
  from assms have a: "includesStr h ''|''" and b: "includesStr (toLowerCase h) ''timestamp''"
    by (simp_all add: isHeaderLine_def)
  from includesStr_dropWhile [where P = isWhiteSpace, OF a p]
    includesStr_dropWhile [where P = isWhiteSpace, OF b t]
  show ?thesis by (simp add: isHeaderLine_def toLowerCase_dropWhile)
qed

lemma includesStr_mem: "includesStr s (x # xs) \<Longrightarrow> x \<in> set s"
  by (induction s) (auto simp add: startsWith_def)

lemma trim_block:
  assumes "\<exists>x \<in> set h. \<not> isWhiteSpace x" and "r \<noteq> []" and "\<not> isWhiteSpace (last r)"
  shows "trim (h @ r) = dropWhile isWhiteSpace h @ r"
proof -
  from assms(1) obtain x where "x \<in> set h" and "\<not> isWhiteSpace x"
    by blast
  then have "dropWhile isWhiteSpace (h @ r) = dropWhile isWhiteSpace h @ r"
    by (rule dropWhile_append1)
  moreover have "dropWhile isWhiteSpace (rev (dropWhile isWhiteSpace h @ r)) =
                 rev (dropWhile isWhiteSpace h @ r)"
    using assms(2,3) by (cases r rule: rev_cases) simp_all
  ultimately show ?thesis by (simp add: trim_def)
qed

lemma dataRow_example: "tableRow ''| 0:00 | Open |'' = [''0:00'', ''Open'']"
  by code_simp

lemma cell_example: "map (\<lambda>cell. splitStr cell ''\<newline>'') [''0:00'', ''Open''] = [[''0:00''], [''Open'']]"
  by code_simp

lemma lines_of_block:
  assumes "CHR ''\<newline>'' \<notin> set h" and "CHR ''\<newline>'' \<notin> set sep"
  shows "splitStr (h @ ''\<newline>'' @ sep @ ''\<newline>| 0:00 | Open |'') ''\<newline>'' =
           [h, sep, ''| 0:00 | Open |'']"
proof -
  have r: "splitSep ''\<newline>'' ''| 0:00 | Open |'' = [''| 0:00 | Open |'']"
    by code_simp
  have "splitSep ''\<newline>'' (h @ CHR ''\<newline>'' # (sep @ CHR ''\<newline>'' # ''| 0:00 | Open |'')) =
          h # splitSep ''\<newline>'' (sep @ CHR ''\<newline>'' # ''| 0:00 | Open |'')"
    using assms(1) by (rule splitSep_first)
  also have "splitSep ''\<newline>'' (sep @ CHR ''\<newline>'' # ''| 0:00 | Open |'') =
          sep # splitSep ''\<newline>'' ''| 0:00 | Open |''"
    using assms(2) by (rule splitSep_first)
  finally show ?thesis using r by (simp add: splitStr_def)
qed

lemma renderScriptTable_block:
  assumes a: "CHR ''\<newline>'' \<notin> set h \<and> CHR ''\<newline>'' \<notin> set sep \<and> isHeaderLine h"
  shows "renderScriptTable (h @ ''\<newline>'' @ sep @ ''\<newline>| 0:00 | Open |'') =
        Table (filter (\<lambda>c. c \<noteq> []) (map trim (splitStr (dropWhile isWhiteSpace h) ''|'')))
          [[[''0:00''], [''Open'']]]"
proof -
  let ?h = "dropWhile isWhiteSpace h"
  let ?md = "h @ ''\<newline>'' @ sep @ ''\<newline>| 0:00 | Open |''"
  from a have hl: "isHeaderLine ?h" by (simp add: isHeaderLine_dropWhile)
  from a have "CHR ''|'' \<in> set h"
    by (auto simp add: isHeaderLine_def dest: includesStr_mem)
  moreover have "\<not> isWhiteSpace (CHR ''|'')" by (simp add: isWhiteSpace_def)
  ultimately have nw: "\<exists>x \<in> set h. \<not> isWhiteSpace x" by blast
  have nl: "CHR ''\<newline>'' \<notin> set ?h"
    using a set_dropWhileD by fastforce
  have "trim (h @ (''\<newline>'' @ sep @ ''\<newline>| 0:00 | Open |'')) =
        ?h @ (''\<newline>'' @ sep @ ''\<newline>| 0:00 | Open |'')"
    using nw by (rule trim_block) (simp_all add: isWhiteSpace_def)
  then have lines: "splitStr (trim ?md) ''\<newline>'' = [?h, sep, ''| 0:00 | Open |'']"
    using lines_of_block [OF nl] a by simp
  from nw have ne: "?h \<noteq> []" by simp
  have "renderScriptTable_try ?md =
          Inr (Table (filter (\<lambda>c. c \<noteq> []) (map trim (splitStr ?h ''|''))) [[[''0:00''], [''Open'']]])"
    unfolding renderScriptTable_try_def lines Let_def
    using hl ne dataRow_example cell_example
    by (simp add: sliceFrom_def relIndex_def)
  then show ?thesis
    by (simp add: renderScriptTable_def)
qed

lemma renderScriptTable_no_header:
  assumes "\<forall>line \<in> set (splitStr (trim markdown) ''\<newline>''). \<not> isHeaderLine line"
  shows "renderScriptTable_try markdown = Inr (Pre markdown) \<and>
         renderScriptTable markdown = Pre markdown"
proof -
  from assms have "find isHeaderLine (splitStr (trim markdown) ''\<newline>'') = None"
    by (simp add: find_None_iff)
  then have "renderScriptTable_try markdown = Inr (Pre markdown)"
    by (simp add: renderScriptTable_try_def Let_def)
  then show ?thesis
    by (simp add: renderScriptTable_def)
qed

text \<open>
  C5. A block made of a header row (a line with a bar and, in any case, the word
  timestamp), one further row and the data row \<open>| 0:00 | Open |\<close> renders as a table
  with the one data row of the two cells \<open>0:00\<close> and \<open>Open\<close>. A text none of whose
  lines is a header row renders as itself in a \<open>pre\<close> element, and the body of the
  \<open>try\<close> block returns: nothing is thrown.
\<close>

theorem renderScriptTable_header_or_verbatim:
  "(CHR ''\<newline>'' \<notin> set h \<and> CHR ''\<newline>'' \<notin> set sep \<and> isHeaderLine h \<longrightarrow>
      renderScriptTable (h @ ''\<newline>'' @ sep @ ''\<newline>| 0:00 | Open |'') =
        Table (filter (\<lambda>c. c \<noteq> []) (map trim (splitStr (dropWhile isWhiteSpace h) ''|'')))
          [[[''0:00''], [''Open'']]]) \<and>
   ((\<forall>line \<in> set (splitStr (trim markdown) ''\<newline>''). \<not> isHeaderLine line) \<longrightarrow>
      renderScriptTable_try markdown = Inr (Pre markdown) \<and>
      renderScriptTable markdown = Pre markdown)"
  using renderScriptTable_block renderScriptTable_no_header by blast

theorem renderScriptTable_header_or_verbatim_witness:
  "renderScriptTable (''| Timestamp | Action |'' @ ''\<newline>'' @ ''|---|---|'' @ ''\<newline>| 0:00 | Open |'') =
     Table (filter (\<lambda>c. c \<noteq> []) (map trim (splitStr (dropWhile isWhiteSpace ''| Timestamp | Action |'') ''|'')))
       [[[''0:00''], [''Open'']]] \<and>
   filter (\<lambda>c. c \<noteq> []) (map trim (splitStr (dropWhile isWhiteSpace ''| Timestamp | Action |'') ''|'')) =
     [''Timestamp'', ''Action''] \<and>
   renderScriptTable_try ''Scene one: the hero wakes up.'' = Inr (Pre ''Scene one: the hero wakes up.'') \<and>
   renderScriptTable ''Scene one: the hero wakes up.'' = Pre ''Scene one: the hero wakes up.''"
proof -
  have h1: "CHR ''\<newline>'' \<notin> set ''| Timestamp | Action |'' \<and> CHR ''\<newline>'' \<notin> set ''|---|---|'' \<and>
            isHeaderLine ''| Timestamp | Action |''"
    by code_simp
  have h2: "\<forall>line \<in> set (splitStr (trim ''Scene one: the hero wakes up.'') ''\<newline>''). \<not> isHeaderLine line"
    by code_simp
  have hd: "filter (\<lambda>c. c \<noteq> []) (map trim (splitStr (dropWhile isWhiteSpace ''| Timestamp | Action |'') ''|'')) =
     [''Timestamp'', ''Action'']"
    by code_simp
  from renderScriptTable_header_or_verbatim
    [of "''| Timestamp | Action |''" "''|---|---|''" "''Scene one: the hero wakes up.''"] h1 h2 hd
  show ?thesis by blast
qed

end
